theory Spec2Isabelle
  imports Complex_Main
begin

section \<open>Data model of \<open>App.tsx\<close>\<close>

text \<open>
  JavaScript numbers are taken as real numbers: the claims are about which value a handler
  stores, not about rounding. \<open>null\<close> and \<open>undefined\<close> are \<open>None\<close>.
\<close>

text \<open>The \<open>LogoConfig\<close> object held by \<open>useState\<close> (initial value at lines 42-48).\<close>

record LogoConfig =
  url :: "string option"
  x :: real
  y :: real
  scale :: real
  rotation :: real

text \<open>
  Modelled from the spec: \<open>types.ts\<close> (the declaration of \<open>AnalysisResult\<close>) is not among
  the sources. The fields are those that \<open>App.tsx\<close> reads, typed as section 6 of the
  specification gives the verdict: \<open>recommendedScale\<close> is a number or absent.
\<close>

record AnalysisResult =
  isPrintable :: bool
  recommendedScale :: "real option"
  suggestedColors :: "string list"
  estimatedPrice :: real
  reasoning :: string

datatype RedirectStatus = Idle | Saving | Redirecting

text \<open>
  The state hooks of the component that the handlers write (lines 42-54). \<open>activeStep\<close> has
  the type \<open>1 | 2 | 3 | 4\<close> and is compared numerically by the render function.
\<close>

record AppState =
  logoConfig :: LogoConfig
  activeStep :: nat
  analysis :: "AnalysisResult option"
  fileError :: "string option"
  processingStatus :: string
  redirectStatus :: RedirectStatus

definition initialState :: AppState where
  "initialState =
     \<lparr> logoConfig = \<lparr> url = None, x = 0, y = 0, scale = 30, rotation = 0 \<rparr>,
       activeStep = 1,
       analysis = None,
       fileError = None,
       processingStatus = [],
       redirectStatus = Idle \<rparr>"

text \<open>
  The uploaded file: its \<open>size\<close> in bytes and the data URL that \<open>FileReader.readAsDataURL\<close>
  hands to \<open>reader.onload\<close>.
\<close>

record File =
  fileSize :: nat
  dataUrl :: string

text \<open>A value thrown by a collaborator (a rejected promise).\<close>

datatype js_error = Thrown string

section \<open>The upload handler\<close>

text \<open>
  \<open>a || d\<close> on a number that may be absent: \<open>undefined\<close> and \<open>0\<close> are both falsy, so both
  yield the right operand.
\<close>

definition js_or :: "real option \<Rightarrow> real \<Rightarrow> real" where
  "js_or a d = (case a of None \<Rightarrow> d | Some v \<Rightarrow> if v = 0 then d else v)"

text \<open>
  \<open>handleFileUpload\<close> is an asynchronous function. Between two \<open>await\<close>s its code runs
  without interruption, so a run is a sequence of segments, and \<open>pending\<close> says where a
  run is suspended:
  \<^item> \<open>AwaitRead raw\<close>: the synchronous part has returned and the reader is loading;
  \<^item> \<open>AwaitProcessLogo raw\<close>: suspended at \<open>await processLogo(rawResult)\<close>;
  \<^item> \<open>AwaitAnalyzeDesign img\<close>: suspended at \<open>await analyzeDesign(processedImage)\<close>;
  \<^item> \<open>Finished\<close>: the run is over.
  The handler reads no state variable: every write is a constant or a functional update,
  so passing the current state to each segment is what React does.
\<close>

datatype pending =
  AwaitRead string
| AwaitProcessLogo string
| AwaitAnalyzeDesign string
| Finished

text \<open>The \<open>catch\<close> block (lines 114-117) and the \<open>finally\<close> block (lines 118-120).\<close>

definition onCatch :: "AppState \<Rightarrow> AppState" where
  "onCatch s = s\<lparr> fileError := Some ''System Error: Could not verify design.'',
                  activeStep := 1 \<rparr>"

definition onFinally :: "AppState \<Rightarrow> AppState" where
  "onFinally s = s\<lparr> processingStatus := [] \<rparr>"

text \<open>The synchronous part of the handler (lines 75-86 and 122).\<close>

definition startUpload :: "File option \<Rightarrow> AppState \<Rightarrow> pending \<times> AppState" where
  "startUpload file s =
     (case file of
        None \<Rightarrow> (Finished, s)
      | Some f \<Rightarrow>
          if fileSize f > 5 * 1024 * 1024
          then (Finished, s\<lparr> fileError := Some ''File too large. Max 5MB.'' \<rparr>)
          else (AwaitRead (dataUrl f), s\<lparr> fileError := None, activeStep := 2 \<rparr>))"

text \<open>
  One segment of \<open>reader.onload\<close> (lines 87-121): from where the run is suspended to its
  next \<open>await\<close> or to its end. The collaborators \<open>processLogo\<close> and \<open>analyzeDesign\<close> are
  parameters; each returns its value or throws.
\<close>

fun resume ::
  "(string \<Rightarrow> js_error + string) \<Rightarrow> (string \<Rightarrow> js_error + AnalysisResult) \<Rightarrow>
   pending \<Rightarrow> AppState \<Rightarrow> pending \<times> AppState" where
  "resume processLogo analyzeDesign (AwaitRead rawResult) s =
     (AwaitProcessLogo rawResult,
      s\<lparr> processingStatus := ''Removing background & Centering...'' \<rparr>)"
| "resume processLogo analyzeDesign (AwaitProcessLogo rawResult) s =
     (case processLogo rawResult of
        Inl err \<Rightarrow> (Finished, onFinally (onCatch s))
      | Inr processedImage \<Rightarrow>
          (AwaitAnalyzeDesign processedImage,
           s\<lparr> logoConfig :=
                 \<lparr> url = Some processedImage, x = 0, y = 0, scale = 30, rotation = 0 \<rparr>,
              processingStatus := ''AI optimizing scale & printability...'' \<rparr>))"
| "resume processLogo analyzeDesign (AwaitAnalyzeDesign processedImage) s =
     (case analyzeDesign processedImage of
        Inl err \<Rightarrow> (Finished, onFinally (onCatch s))
      | Inr aiResult \<Rightarrow>
          (let s1 = s\<lparr> analysis := Some aiResult \<rparr>;
               s2 = (if isPrintable aiResult
                     then s1\<lparr> logoConfig :=
                                (logoConfig s1)\<lparr> scale := js_or (recommendedScale aiResult) 36 \<rparr>,
                             activeStep := 3 \<rparr>
                     else s1)
           in (Finished, onFinally s2)))"
| "resume processLogo analyzeDesign Finished s = (Finished, s)"

text \<open>
  A run that nothing interleaves with: the synchronous part, then the three segments of
  \<open>reader.onload\<close> one after the other.
\<close>

definition handleFileUpload ::
  "(string \<Rightarrow> js_error + string) \<Rightarrow> (string \<Rightarrow> js_error + AnalysisResult) \<Rightarrow>
   File option \<Rightarrow> AppState \<Rightarrow> AppState" where
  "handleFileUpload processLogo analyzeDesign file s =
     (let (p0, s0) = startUpload file s;
          (p1, s1) = resume processLogo analyzeDesign p0 s0;
          (p2, s2) = resume processLogo analyzeDesign p1 s1;
          (p3, s3) = resume processLogo analyzeDesign p2 s2
      in s3)"

section \<open>The other handlers\<close>

text \<open>\<open>handleProceedToCheckout\<close> (lines 125-127).\<close>

definition handleProceedToCheckout :: "AppState \<Rightarrow> AppState" where
  "handleProceedToCheckout s = s\<lparr> activeStep := 4 \<rparr>"

text \<open>\<open>resetUpload\<close> (lines 129-134).\<close>

definition resetUpload :: "AppState \<Rightarrow> AppState" where
  "resetUpload s =
     s\<lparr> logoConfig := (logoConfig s)\<lparr> url := None \<rparr>,
        analysis := None,
        activeStep := 1,
        redirectStatus := Idle \<rparr>"

text \<open>
  What \<open>handleShopifyCheckout\<close> does to the outside: the call of \<open>saveDesignToDatabase\<close>
  and the assignment to \<open>window.location.href\<close>. The redirect carries the three
  attributes appended to the URL (design id, colours, scale) rather than the encoded URL.
\<close>

datatype effect =
  SaveDesign LogoConfig AnalysisResult
| Redirect string "string list" real

text \<open>
  \<open>handleShopifyCheckout\<close> (lines 136-157). The result is the state, the effects in order,
  and the value thrown, if any. \<open>logoConfig\<close> is an object and never falsy, so the guard
  returns exactly when \<open>analysis\<close> is \<open>null\<close>. \<open>saveDesignToDatabase\<close> is a parameter.
\<close>

definition handleShopifyCheckout ::
  "(LogoConfig \<Rightarrow> AnalysisResult \<Rightarrow> js_error + string) \<Rightarrow> AppState \<Rightarrow>
   AppState \<times> effect list \<times> js_error option" where
  "handleShopifyCheckout saveDesignToDatabase s =
     (case analysis s of
        None \<Rightarrow> (s, [], None)
      | Some a \<Rightarrow>
          (let s1 = s\<lparr> redirectStatus := Saving \<rparr>
           in case saveDesignToDatabase (logoConfig s) a of
                Inl err \<Rightarrow> (s1, [SaveDesign (logoConfig s) a], Some err)
              | Inr designId \<Rightarrow>
                  (s1\<lparr> redirectStatus := Redirecting \<rparr>,
                   [SaveDesign (logoConfig s) a,
                    Redirect designId (suggestedColors a) (scale (logoConfig s))],
                   None)))"

text \<open>
  The \<open>onChange\<close> handlers of the four range inputs (lines 385-423). The argument \<open>v\<close> is
  \<open>parseFloat(e.target.value)\<close>.
\<close>

definition onChangeX :: "real \<Rightarrow> AppState \<Rightarrow> AppState" where
  "onChangeX v s = s\<lparr> logoConfig := (logoConfig s)\<lparr> x := v \<rparr> \<rparr>"

definition onChangeY :: "real \<Rightarrow> AppState \<Rightarrow> AppState" where
  "onChangeY v s = s\<lparr> logoConfig := (logoConfig s)\<lparr> y := v \<rparr> \<rparr>"

definition onChangeScale :: "real \<Rightarrow> AppState \<Rightarrow> AppState" where
  "onChangeScale v s = s\<lparr> logoConfig := (logoConfig s)\<lparr> scale := v \<rparr> \<rparr>"

definition onChangeRotation :: "real \<Rightarrow> AppState \<Rightarrow> AppState" where
  "onChangeRotation v s = s\<lparr> logoConfig := (logoConfig s)\<lparr> rotation := v \<rparr> \<rparr>"

text \<open>
  The \<open>min\<close> and \<open>max\<close> attributes of the four range inputs: \<open>-15\<close> and \<open>15\<close> for both
  positions, \<open>5\<close> and \<open>39\<close> for the scale, \<open>0\<close> and \<open>Math.PI * 2\<close> for the rotation.
\<close>

definition withinSliderRanges :: "LogoConfig \<Rightarrow> bool" where
  "withinSliderRanges c =
     (- 15 \<le> x c \<and> x c \<le> 15 \<and>
      - 15 \<le> y c \<and> y c \<le> 15 \<and>
      5 \<le> scale c \<and> scale c \<le> 39 \<and>
      0 \<le> rotation c \<and> rotation c \<le> 2 * pi)"

section \<open>What the render function shows\<close>

text \<open>The file input (lines 305 and 311).\<close>

definition showsUploadInput :: "AppState \<Rightarrow> bool" where
  "showsUploadInput s = ((activeStep s = 1 \<or> activeStep s = 2) \<and> activeStep s = 1)"

text \<open>
  The text of the "Adjustments Required" panel (lines 305 and 338-350), \<open>None\<close> when the
  panel is not rendered.
\<close>

definition verificationFailedText :: "AppState \<Rightarrow> string option" where
  "verificationFailedText s =
     (if activeStep s = 1 \<or> activeStep s = 2
      then (if activeStep s = 2
            then (case analysis s of
                    None \<Rightarrow> None
                  | Some a \<Rightarrow> if \<not> isPrintable a then Some (reasoning a) else None)
            else None)
      else None)"

text \<open>The four sliders (lines 357 and 369).\<close>

definition showsSliders :: "AppState \<Rightarrow> bool" where
  "showsSliders s = (activeStep s \<ge> 3 \<and> analysis s \<noteq> None \<and> activeStep s = 3)"

section \<open>The event loop\<close>

text \<open>
  JavaScript runs one segment at a time. An \<open>action\<close> is what the event loop does next:
  it delivers a file-input change event, or it resumes the run with the given index (in
  order of start). \<open>eventLoop\<close> carries the suspended runs and the state through a list of
  actions.
\<close>

datatype action = Upload "File option" | Continue nat

fun dispatch ::
  "(string \<Rightarrow> js_error + string) \<Rightarrow> (string \<Rightarrow> js_error + AnalysisResult) \<Rightarrow>
   action \<Rightarrow> pending list \<times> AppState \<Rightarrow> pending list \<times> AppState" where
  "dispatch processLogo analyzeDesign (Upload file) (runs, s) =
     (let (p, s') = startUpload file s in (runs @ [p], s'))"
| "dispatch processLogo analyzeDesign (Continue i) (runs, s) =
     (if i < length runs
      then (let (p, s') = resume processLogo analyzeDesign (runs ! i) s
            in (runs[i := p], s'))
      else (runs, s))"

fun eventLoop ::
  "(string \<Rightarrow> js_error + string) \<Rightarrow> (string \<Rightarrow> js_error + AnalysisResult) \<Rightarrow>
   action list \<Rightarrow> pending list \<times> AppState \<Rightarrow> pending list \<times> AppState" where
  "eventLoop processLogo analyzeDesign [] st = st"
| "eventLoop processLogo analyzeDesign (a # as) st =
     eventLoop processLogo analyzeDesign as (dispatch processLogo analyzeDesign a st)"

section \<open>Sample inputs\<close>

text \<open>
  Concrete files, collaborators and states at which the theorems below are instantiated:
  a file under and a file over the size limit, a \<open>processLogo\<close> that succeeds, an
  \<open>analyzeDesign\<close> that returns a given verdict and one that throws, and a state in which
  the user has moved all four sliders after a successful upload.
\<close>

definition smallFile :: File where
  "smallFile = \<lparr> fileSize = 2048, dataUrl = ''data:A'' \<rparr>"

definition hugeFile :: File where
  "hugeFile = \<lparr> fileSize = 5 * 1024 * 1024 + 1, dataUrl = ''data:H'' \<rparr>"

definition okProcessLogo :: "string \<Rightarrow> js_error + string" where
  "okProcessLogo raw = Inr (''cut:'' @ raw)"

definition verdictOf :: "bool \<Rightarrow> real option \<Rightarrow> AnalysisResult" where
  "verdictOf p r =
     \<lparr> isPrintable = p, recommendedScale = r, suggestedColors = [''#112233''],
       estimatedPrice = 1499 / 100, reasoning = ''Lines thinner than 0.8mm'' \<rparr>"

definition gate :: "AnalysisResult \<Rightarrow> string \<Rightarrow> js_error + AnalysisResult" where
  "gate v img = Inr v"

definition failingGate :: "string \<Rightarrow> js_error + AnalysisResult" where
  "failingGate img = Inl (Thrown ''503'')"

definition editedState :: AppState where
  "editedState =
     \<lparr> logoConfig = \<lparr> url = Some ''cut:data:old'', x = 15 / 2, y = - 4, scale = 12, rotation = 1 \<rparr>,
       activeStep = 3,
       analysis = Some (verdictOf True (Some 33)),
       fileError = None,
       processingStatus = [],
       redirectStatus = Idle \<rparr>"

definition otherFile :: File where
  "otherFile = \<lparr> fileSize = 4096, dataUrl = ''data:B'' \<rparr>"

definition gateByImage :: "string \<Rightarrow> js_error + AnalysisResult" where
  "gateByImage img = Inr (verdictOf True (Some (if img = ''cut:data:A'' then 20 else 28)))"

definition okSave :: "LogoConfig \<Rightarrow> AnalysisResult \<Rightarrow> js_error + string" where
  "okSave c a = Inr ''design-1''"

text \<open>
  Two uploads that overlap: the second file is chosen while the first run is still waiting
  for its reader; the second run then goes through its three segments, and only then does
  the first run go through its own.
\<close>

definition overlappingUploads :: "action list" where
  "overlappingUploads =
     [Upload (Some smallFile), Upload (Some otherFile),
      Continue 1, Continue 1, Continue 1,
      Continue 0, Continue 0, Continue 0]"


section \<open>The paths of an upload run\<close>

lemma handleFileUpload_no_file:
  "handleFileUpload pl ad None s = s"
  by (simp add: handleFileUpload_def startUpload_def)

lemma handleFileUpload_too_large:
  "5 * 1024 * 1024 < fileSize f \<Longrightarrow>
   handleFileUpload pl ad (Some f) s = s\<lparr> fileError := Some ''File too large. Max 5MB.'' \<rparr>"
  by (simp add: handleFileUpload_def startUpload_def)

lemma handleFileUpload_processLogo_throws:
  "fileSize f \<le> 5 * 1024 * 1024 \<Longrightarrow> pl (dataUrl f) = Inl e \<Longrightarrow>
   handleFileUpload pl ad (Some f) s =
     s\<lparr> fileError := Some ''System Error: Could not verify design.'',
        activeStep := 1,
        processingStatus := [] \<rparr>"
  by (simp add: handleFileUpload_def startUpload_def onCatch_def onFinally_def)

lemma handleFileUpload_analyzeDesign_throws:
  "fileSize f \<le> 5 * 1024 * 1024 \<Longrightarrow> pl (dataUrl f) = Inr img \<Longrightarrow> ad img = Inl e \<Longrightarrow>
   handleFileUpload pl ad (Some f) s =
     s\<lparr> logoConfig := \<lparr> url = Some img, x = 0, y = 0, scale = 30, rotation = 0 \<rparr>,
        fileError := Some ''System Error: Could not verify design.'',
        activeStep := 1,
        processingStatus := [] \<rparr>"
  by (simp add: handleFileUpload_def startUpload_def onCatch_def onFinally_def)

lemma handleFileUpload_not_printable:
  "fileSize f \<le> 5 * 1024 * 1024 \<Longrightarrow> pl (dataUrl f) = Inr img \<Longrightarrow> ad img = Inr v \<Longrightarrow>
   \<not> isPrintable v \<Longrightarrow>
   handleFileUpload pl ad (Some f) s =
     s\<lparr> logoConfig := \<lparr> url = Some img, x = 0, y = 0, scale = 30, rotation = 0 \<rparr>,
        analysis := Some v,
        fileError := None,
        activeStep := 2,
        processingStatus := [] \<rparr>"
  by (simp add: handleFileUpload_def startUpload_def onFinally_def)

lemma handleFileUpload_printable:
  "fileSize f \<le> 5 * 1024 * 1024 \<Longrightarrow> pl (dataUrl f) = Inr img \<Longrightarrow> ad img = Inr v \<Longrightarrow>
   isPrintable v \<Longrightarrow>
   handleFileUpload pl ad (Some f) s =
     s\<lparr> logoConfig := \<lparr> url = Some img, x = 0, y = 0,
                         scale = js_or (recommendedScale v) 36, rotation = 0 \<rparr>,
        analysis := Some v,
        fileError := None,
        activeStep := 3,
        processingStatus := [] \<rparr>"
  by (simp add: handleFileUpload_def startUpload_def onFinally_def)

text \<open>
  The uninterrupted run is the event loop delivering the upload and then resuming that
  run three times.
\<close>

lemma handleFileUpload_eventLoop:
  "snd (eventLoop pl ad [Upload file, Continue 0, Continue 0, Continue 0] ([], s)) =
   handleFileUpload pl ad file s"
  by (simp add: handleFileUpload_def split: prod.splits)

text \<open>Resuming a suspended run changes that run's entry only.\<close>

lemma dispatch_Continue:
  "i < length runs \<Longrightarrow>
   dispatch pl ad (Continue i) (runs, s) =
     (runs[i := fst (resume pl ad (runs ! i) s)], snd (resume pl ad (runs ! i) s))"
  by (simp add: split_def Let_def)

section \<open>The slider handlers\<close>

text \<open>
  C1, as the code has it. No handler clamps: each stores its parsed argument unchanged in
  its own field. The ranges are the \<open>min\<close> and \<open>max\<close> attributes of the range inputs, so
  an edit whose argument lies within the range of its slider takes a transform within the
  slider ranges to one within them; the rotation range is closed at \<open>2\<pi>\<close>.
\<close>

theorem slider_edit_stores_argument:
  "x (logoConfig (onChangeX vx s)) = vx \<and>
   y (logoConfig (onChangeY vy s)) = vy \<and>
   scale (logoConfig (onChangeScale vs s)) = vs \<and>
   rotation (logoConfig (onChangeRotation vr s)) = vr \<and>
   (withinSliderRanges (logoConfig s) \<longrightarrow>
      (- 15 \<le> vx \<and> vx \<le> 15 \<longrightarrow> withinSliderRanges (logoConfig (onChangeX vx s))) \<and>
      (- 15 \<le> vy \<and> vy \<le> 15 \<longrightarrow> withinSliderRanges (logoConfig (onChangeY vy s))) \<and>
      (5 \<le> vs \<and> vs \<le> 39 \<longrightarrow> withinSliderRanges (logoConfig (onChangeScale vs s))) \<and>
      (0 \<le> vr \<and> vr \<le> 2 * pi \<longrightarrow> withinSliderRanges (logoConfig (onChangeRotation vr s))))"
  by (simp add: onChangeX_def onChangeY_def onChangeScale_def onChangeRotation_def
      withinSliderRanges_def)


text \<open>The edits 7.5, -4, 12 and 3 of the initial transform.\<close>

theorem slider_edit_stores_argument_witness:
  "withinSliderRanges (logoConfig initialState) \<and>
   (- 15 \<le> (15 / 2 :: real) \<and> (15 / 2 :: real) \<le> 15) \<and>
   (- 15 \<le> (- 4 :: real) \<and> (- 4 :: real) \<le> 15) \<and>
   (5 \<le> (12 :: real) \<and> (12 :: real) \<le> 39) \<and>
   (0 \<le> (3 :: real) \<and> 3 \<le> 2 * pi) \<and>
   x (logoConfig (onChangeX (15 / 2) initialState)) = 15 / 2 \<and>
   y (logoConfig (onChangeY (- 4) initialState)) = - 4 \<and>
   scale (logoConfig (onChangeScale 12 initialState)) = 12 \<and>
   rotation (logoConfig (onChangeRotation 3 initialState)) = 3 \<and>
   withinSliderRanges (logoConfig (onChangeX (15 / 2) initialState)) \<and>
   withinSliderRanges (logoConfig (onChangeY (- 4) initialState)) \<and>
   withinSliderRanges (logoConfig (onChangeScale 12 initialState)) \<and>
   withinSliderRanges (logoConfig (onChangeRotation 3 initialState))"
proof -
  have r: "withinSliderRanges (logoConfig initialState)"
    by (simp add: withinSliderRanges_def initialState_def)
  have p: "3 \<le> 2 * pi"
    using pi_ge_two by simp
  show ?thesis
    using slider_edit_stores_argument [of "15 / 2" initialState "- 4" 12 3] r p by simp
qed


text \<open>
  C1 as stated fails: \<open>setScale(100)\<close> leaves the scale at 100, not 39, and
  \<open>setScale(-10)\<close> leaves it at -10, not 5.
\<close>

theorem setScale_out_of_range_not_clamped:
  "scale (logoConfig (onChangeScale 100 initialState)) = 100 \<and>
   scale (logoConfig (onChangeScale 100 initialState)) \<noteq> 39 \<and>
   scale (logoConfig (onChangeScale (- 10) initialState)) = - 10 \<and>
   scale (logoConfig (onChangeScale (- 10) initialState)) \<noteq> 5"
  by (simp add: onChangeScale_def initialState_def)


section \<open>Applying a printable verdict\<close>

text \<open>
  C2, as the code has it. An upload run whose image processing succeeds and whose verdict
  is printable ends at step 3 with the sliders shown, offsets \<open>(0, 0)\<close>, rotation \<open>0\<close>,
  and the scale equal to \<open>recommendedScale\<close> when that is present and not zero, and to 36
  when it is absent or zero.
\<close>

theorem printable_verdict_default_placed:
  assumes "fileSize f \<le> 5 * 1024 * 1024"
    and "pl (dataUrl f) = Inr img"
    and "ad img = Inr v"
    and "isPrintable v"
  shows "activeStep (handleFileUpload pl ad (Some f) s) = 3 \<and>
         showsSliders (handleFileUpload pl ad (Some f) s) \<and>
         x (logoConfig (handleFileUpload pl ad (Some f) s)) = 0 \<and>
         y (logoConfig (handleFileUpload pl ad (Some f) s)) = 0 \<and>
         rotation (logoConfig (handleFileUpload pl ad (Some f) s)) = 0 \<and>
         (recommendedScale v = None \<longrightarrow>
            scale (logoConfig (handleFileUpload pl ad (Some f) s)) = 36) \<and>
         (recommendedScale v = Some 0 \<longrightarrow>
            scale (logoConfig (handleFileUpload pl ad (Some f) s)) = 36) \<and>
         (\<forall>r. recommendedScale v = Some r \<and> r \<noteq> 0 \<longrightarrow>
            scale (logoConfig (handleFileUpload pl ad (Some f) s)) = r)"
  using assms by (simp add: handleFileUpload_printable showsSliders_def js_or_def)


text \<open>Scenario 3 of the specification: the recommendation 28 on the initial state.\<close>

theorem printable_verdict_default_placed_witness:
  "fileSize smallFile \<le> 5 * 1024 * 1024 \<and>
   okProcessLogo (dataUrl smallFile) = Inr ''cut:data:A'' \<and>
   gate (verdictOf True (Some 28)) ''cut:data:A'' = Inr (verdictOf True (Some 28)) \<and>
   isPrintable (verdictOf True (Some 28)) \<and>
   recommendedScale (verdictOf True (Some 28)) = Some 28 \<and>
   activeStep (handleFileUpload okProcessLogo (gate (verdictOf True (Some 28)))
     (Some smallFile) initialState) = 3 \<and>
   x (logoConfig (handleFileUpload okProcessLogo (gate (verdictOf True (Some 28)))
     (Some smallFile) initialState)) = 0 \<and>
   y (logoConfig (handleFileUpload okProcessLogo (gate (verdictOf True (Some 28)))
     (Some smallFile) initialState)) = 0 \<and>
   rotation (logoConfig (handleFileUpload okProcessLogo (gate (verdictOf True (Some 28)))
     (Some smallFile) initialState)) = 0 \<and>
   scale (logoConfig (handleFileUpload okProcessLogo (gate (verdictOf True (Some 28)))
     (Some smallFile) initialState)) = 28"
proof -
  have a: "fileSize smallFile \<le> 5 * 1024 * 1024"
    by (simp add: smallFile_def)
  have b: "okProcessLogo (dataUrl smallFile) = Inr ''cut:data:A''"
    by (simp add: okProcessLogo_def smallFile_def)
  have c: "gate (verdictOf True (Some 28)) ''cut:data:A'' = Inr (verdictOf True (Some 28))"
    by (simp add: gate_def)
  have d: "isPrintable (verdictOf True (Some 28))"
    by (simp add: verdictOf_def)
  have e: "recommendedScale (verdictOf True (Some 28)) = Some 28"
    by (simp add: verdictOf_def)
  show ?thesis
    using printable_verdict_default_placed
      [where f = smallFile and pl = okProcessLogo and img = "''cut:data:A''"
         and ad = "gate (verdictOf True (Some 28))" and v = "verdictOf True (Some 28)"
         and s = initialState] a b c d e
    by simp
qed


text \<open>
  C2 as stated fails for a recommendation that is present and zero: the scale is 36, not
  the recommended 0.
\<close>

theorem zero_recommendation_falls_back:
  "isPrintable (verdictOf True (Some 0)) \<and>
   recommendedScale (verdictOf True (Some 0)) = Some 0 \<and>
   scale (logoConfig (handleFileUpload okProcessLogo (gate (verdictOf True (Some 0)))
     (Some smallFile) initialState)) = 36 \<and>
   scale (logoConfig (handleFileUpload okProcessLogo (gate (verdictOf True (Some 0)))
     (Some smallFile) initialState)) \<noteq> 0"
  by (simp add: handleFileUpload_def startUpload_def smallFile_def okProcessLogo_def gate_def
      verdictOf_def onFinally_def js_or_def initialState_def)

text \<open>
  C3, as the code has it. The recommendation is stored as it is, with no clamp: a
  recommendation outside \<open>[5, 39]\<close> (and not zero) becomes the scale, and the scale after
  a printable verdict lies in \<open>[5, 39]\<close> exactly when the recommendation is absent, zero
  or itself in \<open>[5, 39]\<close>.
\<close>

theorem printable_verdict_scale_unclamped:
  assumes "fileSize f \<le> 5 * 1024 * 1024"
    and "pl (dataUrl f) = Inr img"
    and "ad img = Inr v"
    and "isPrintable v"
  shows "(\<forall>r. recommendedScale v = Some r \<and> (r < 5 \<or> 39 < r) \<and> r \<noteq> 0 \<longrightarrow>
            scale (logoConfig (handleFileUpload pl ad (Some f) s)) = r) \<and>
         ((5 \<le> scale (logoConfig (handleFileUpload pl ad (Some f) s)) \<and>
           scale (logoConfig (handleFileUpload pl ad (Some f) s)) \<le> 39) \<longleftrightarrow>
          (recommendedScale v = None \<or> recommendedScale v = Some 0 \<or>
           (\<exists>r. recommendedScale v = Some r \<and> 5 \<le> r \<and> r \<le> 39)))"
  using assms by (cases "recommendedScale v") (auto simp: handleFileUpload_printable js_or_def)

text \<open>The recommendation 4 on a transform the user has edited.\<close>

theorem printable_verdict_scale_unclamped_witness:
  "fileSize smallFile \<le> 5 * 1024 * 1024 \<and>
   okProcessLogo (dataUrl smallFile) = Inr ''cut:data:A'' \<and>
   gate (verdictOf True (Some 4)) ''cut:data:A'' = Inr (verdictOf True (Some 4)) \<and>
   isPrintable (verdictOf True (Some 4)) \<and>
   recommendedScale (verdictOf True (Some 4)) = Some 4 \<and>
   scale (logoConfig (handleFileUpload okProcessLogo (gate (verdictOf True (Some 4)))
     (Some smallFile) editedState)) = 4"
proof -
  have a: "fileSize smallFile \<le> 5 * 1024 * 1024"
    by (simp add: smallFile_def)
  have b: "okProcessLogo (dataUrl smallFile) = Inr ''cut:data:A''"
    by (simp add: okProcessLogo_def smallFile_def)
  have c: "gate (verdictOf True (Some 4)) ''cut:data:A'' = Inr (verdictOf True (Some 4))"
    by (simp add: gate_def)
  have d: "isPrintable (verdictOf True (Some 4))"
    by (simp add: verdictOf_def)
  have e: "recommendedScale (verdictOf True (Some 4)) = Some 4"
    by (simp add: verdictOf_def)
  show ?thesis
    using printable_verdict_scale_unclamped
      [where f = smallFile and pl = okProcessLogo and img = "''cut:data:A''"
         and ad = "gate (verdictOf True (Some 4))" and v = "verdictOf True (Some 4)"
         and s = editedState] a b c d e
    by simp
qed

text \<open>C3 as stated fails: the recommendation 100 gives the scale 100.\<close>

theorem recommendation_100_not_clamped:
  "isPrintable (verdictOf True (Some 100)) \<and>
   recommendedScale (verdictOf True (Some 100)) = Some 100 \<and>
   scale (logoConfig (handleFileUpload okProcessLogo (gate (verdictOf True (Some 100)))
     (Some smallFile) initialState)) = 100 \<and>
   \<not> scale (logoConfig (handleFileUpload okProcessLogo (gate (verdictOf True (Some 100)))
     (Some smallFile) initialState)) \<le> 39"
  by (simp add: handleFileUpload_def startUpload_def smallFile_def okProcessLogo_def gate_def
      verdictOf_def onFinally_def js_or_def initialState_def)

section \<open>A verdict that is not printable\<close>

text \<open>
  C4. When the verdict has \<open>isPrintable\<close> false, the run ends at step 2 and the sliders are
  not shown; the segment that receives the verdict changes neither the step nor the logo
  configuration, so the transform is the one set after image processing (scale 30)
  whatever the recommendation; and the "Adjustments Required" panel shows the verdict's
  \<open>reasoning\<close> unchanged.
\<close>

theorem not_printable_verdict_halts:
  assumes "fileSize f \<le> 5 * 1024 * 1024"
    and "pl (dataUrl f) = Inr img"
    and "ad img = Inr v"
    and "\<not> isPrintable v"
  shows "activeStep (handleFileUpload pl ad (Some f) s) = 2 \<and>
         \<not> showsSliders (handleFileUpload pl ad (Some f) s) \<and>
         logoConfig (handleFileUpload pl ad (Some f) s) =
           \<lparr> url = Some img, x = 0, y = 0, scale = 30, rotation = 0 \<rparr> \<and>
         analysis (handleFileUpload pl ad (Some f) s) = Some v \<and>
         verificationFailedText (handleFileUpload pl ad (Some f) s) = Some (reasoning v) \<and>
         activeStep (snd (resume pl ad (AwaitAnalyzeDesign img) s)) = activeStep s \<and>
         logoConfig (snd (resume pl ad (AwaitAnalyzeDesign img) s)) = logoConfig s"
  using assms
  by (simp add: handleFileUpload_not_printable showsSliders_def verificationFailedText_def
      onFinally_def)

text \<open>A verdict that is not printable and recommends 28.\<close>

theorem not_printable_verdict_halts_witness:
  "fileSize smallFile \<le> 5 * 1024 * 1024 \<and>
   okProcessLogo (dataUrl smallFile) = Inr ''cut:data:A'' \<and>
   gate (verdictOf False (Some 28)) ''cut:data:A'' = Inr (verdictOf False (Some 28)) \<and>
   \<not> isPrintable (verdictOf False (Some 28)) \<and>
   activeStep (handleFileUpload okProcessLogo (gate (verdictOf False (Some 28)))
     (Some smallFile) initialState) = 2 \<and>
   scale (logoConfig (handleFileUpload okProcessLogo (gate (verdictOf False (Some 28)))
     (Some smallFile) initialState)) = 30 \<and>
   verificationFailedText (handleFileUpload okProcessLogo (gate (verdictOf False (Some 28)))
     (Some smallFile) initialState) = Some ''Lines thinner than 0.8mm''"
proof -
  have a: "fileSize smallFile \<le> 5 * 1024 * 1024"
    by (simp add: smallFile_def)
  have b: "okProcessLogo (dataUrl smallFile) = Inr ''cut:data:A''"
    by (simp add: okProcessLogo_def smallFile_def)
  have c: "gate (verdictOf False (Some 28)) ''cut:data:A'' = Inr (verdictOf False (Some 28))"
    by (simp add: gate_def)
  have d: "\<not> isPrintable (verdictOf False (Some 28))"
    by (simp add: verdictOf_def)
  have e: "reasoning (verdictOf False (Some 28)) = ''Lines thinner than 0.8mm''"
    by (simp add: verdictOf_def)
  show ?thesis
    using not_printable_verdict_halts
      [where f = smallFile and pl = okProcessLogo and img = "''cut:data:A''"
         and ad = "gate (verdictOf False (Some 28))" and v = "verdictOf False (Some 28)"
         and s = initialState] a b c d e
    by simp
qed

section \<open>The size limit\<close>

text \<open>
  C5. A file of more than \<open>5 * 1024 * 1024\<close> bytes is refused with the message
  "File too large. Max 5MB.": no run is left pending, and the step, the processing
  status, the analysis, the logo configuration and the redirect status are untouched,
  whatever the collaborators would have returned.
\<close>

theorem oversized_upload_rejected:
  assumes "5 * 1024 * 1024 < fileSize f"
  shows "fst (startUpload (Some f) s) = Finished \<and>
         fileError (handleFileUpload pl ad (Some f) s) = Some ''File too large. Max 5MB.'' \<and>
         activeStep (handleFileUpload pl ad (Some f) s) = activeStep s \<and>
         processingStatus (handleFileUpload pl ad (Some f) s) = processingStatus s \<and>
         analysis (handleFileUpload pl ad (Some f) s) = analysis s \<and>
         logoConfig (handleFileUpload pl ad (Some f) s) = logoConfig s \<and>
         redirectStatus (handleFileUpload pl ad (Some f) s) = redirectStatus s"
  using assms by (simp add: handleFileUpload_too_large startUpload_def)

text \<open>A file one byte over the limit.\<close>

theorem oversized_upload_rejected_witness:
  "5 * 1024 * 1024 < fileSize hugeFile \<and>
   fileSize hugeFile = 5242881 \<and>
   fst (startUpload (Some hugeFile) initialState) = Finished \<and>
   fileError (handleFileUpload okProcessLogo gateByImage (Some hugeFile) initialState) =
     Some ''File too large. Max 5MB.'' \<and>
   activeStep (handleFileUpload okProcessLogo gateByImage (Some hugeFile) initialState) = 1 \<and>
   analysis (handleFileUpload okProcessLogo gateByImage (Some hugeFile) initialState) = None \<and>
   logoConfig (handleFileUpload okProcessLogo gateByImage (Some hugeFile) initialState) =
     logoConfig initialState"
proof -
  have a: "5 * 1024 * 1024 < fileSize hugeFile"
    by (simp add: hugeFile_def)
  have b: "fileSize hugeFile = 5242881"
    by (simp add: hugeFile_def)
  have c: "activeStep initialState = 1" "analysis initialState = None"
    by (simp_all add: initialState_def)
  show ?thesis
    using oversized_upload_rejected [OF a, of initialState okProcessLogo gateByImage] a b c
    by simp
qed

section \<open>Reset\<close>

text \<open>
  C6. From every state, \<open>resetUpload\<close> followed by an upload run with a printable verdict
  ends at step 3 with the sliders shown, the new image and verdict, offsets \<open>(0, 0)\<close> and
  rotation \<open>0\<close>.
\<close>

theorem reset_then_printable_verdict:
  assumes "fileSize f \<le> 5 * 1024 * 1024"
    and "pl (dataUrl f) = Inr img"
    and "ad img = Inr v"
    and "isPrintable v"
  shows "activeStep (handleFileUpload pl ad (Some f) (resetUpload s)) = 3 \<and>
         showsSliders (handleFileUpload pl ad (Some f) (resetUpload s)) \<and>
         url (logoConfig (handleFileUpload pl ad (Some f) (resetUpload s))) = Some img \<and>
         analysis (handleFileUpload pl ad (Some f) (resetUpload s)) = Some v \<and>
         x (logoConfig (handleFileUpload pl ad (Some f) (resetUpload s))) = 0 \<and>
         y (logoConfig (handleFileUpload pl ad (Some f) (resetUpload s))) = 0 \<and>
         rotation (logoConfig (handleFileUpload pl ad (Some f) (resetUpload s))) = 0"
  using assms by (simp add: handleFileUpload_printable showsSliders_def)

text \<open>From a state in which the user has moved all four sliders.\<close>

theorem reset_then_printable_verdict_witness:
  "fileSize otherFile \<le> 5 * 1024 * 1024 \<and>
   okProcessLogo (dataUrl otherFile) = Inr ''cut:data:B'' \<and>
   gateByImage ''cut:data:B'' = Inr (verdictOf True (Some 28)) \<and>
   isPrintable (verdictOf True (Some 28)) \<and>
   x (logoConfig editedState) = 15 / 2 \<and>
   rotation (logoConfig editedState) = 1 \<and>
   activeStep (handleFileUpload okProcessLogo gateByImage (Some otherFile)
     (resetUpload editedState)) = 3 \<and>
   x (logoConfig (handleFileUpload okProcessLogo gateByImage (Some otherFile)
     (resetUpload editedState))) = 0 \<and>
   y (logoConfig (handleFileUpload okProcessLogo gateByImage (Some otherFile)
     (resetUpload editedState))) = 0 \<and>
   rotation (logoConfig (handleFileUpload okProcessLogo gateByImage (Some otherFile)
     (resetUpload editedState))) = 0"
proof -
  have a: "fileSize otherFile \<le> 5 * 1024 * 1024"
    by (simp add: otherFile_def)
  have b: "okProcessLogo (dataUrl otherFile) = Inr ''cut:data:B''"
    by (simp add: okProcessLogo_def otherFile_def)
  have c: "gateByImage ''cut:data:B'' = Inr (verdictOf True (Some 28))"
    by (simp add: gateByImage_def)
  have d: "isPrintable (verdictOf True (Some 28))"
    by (simp add: verdictOf_def)
  have e: "x (logoConfig editedState) = 15 / 2" "rotation (logoConfig editedState) = 1"
    by (simp_all add: editedState_def)
  show ?thesis
    using reset_then_printable_verdict
      [where f = otherFile and pl = okProcessLogo and img = "''cut:data:B''"
         and ad = gateByImage and v = "verdictOf True (Some 28)" and s = editedState]
      a b c d e
    by simp
qed

text \<open>
  C10. \<open>resetUpload\<close> sets the image URL to \<open>null\<close>, the analysis to \<open>null\<close>, the step to 1
  and the redirect status to idle, and nothing else: \<open>x\<close>, \<open>y\<close>, \<open>scale\<close> and \<open>rotation\<close>
  keep their values (as do the file error and the processing status), and the sliders
  are no longer shown. An upload that is refused for its size or whose image processing
  throws leaves the logo configuration as it is; an upload whose image processing
  succeeds overwrites the transform with the defaults \<open>(0, 0, 30, 0)\<close>, and offsets and
  rotation are \<open>0\<close> at the end of that run.
\<close>

theorem reset_leaves_transform:
  "url (logoConfig (resetUpload s)) = None \<and>
   analysis (resetUpload s) = None \<and>
   activeStep (resetUpload s) = 1 \<and>
   redirectStatus (resetUpload s) = Idle \<and>
   x (logoConfig (resetUpload s)) = x (logoConfig s) \<and>
   y (logoConfig (resetUpload s)) = y (logoConfig s) \<and>
   scale (logoConfig (resetUpload s)) = scale (logoConfig s) \<and>
   rotation (logoConfig (resetUpload s)) = rotation (logoConfig s) \<and>
   fileError (resetUpload s) = fileError s \<and>
   processingStatus (resetUpload s) = processingStatus s \<and>
   \<not> showsSliders (resetUpload s) \<and>
   (5 * 1024 * 1024 < fileSize f \<or> (\<exists>e. pl (dataUrl f) = Inl e) \<longrightarrow>
      logoConfig (handleFileUpload pl ad (Some f) (resetUpload s)) = logoConfig (resetUpload s)) \<and>
   (fileSize f \<le> 5 * 1024 * 1024 \<and> pl (dataUrl f) = Inr img \<longrightarrow>
      logoConfig (snd (resume pl ad (AwaitProcessLogo (dataUrl f))
        (snd (resume pl ad (AwaitRead (dataUrl f)) (snd (startUpload (Some f) (resetUpload s))))))) =
        \<lparr> url = Some img, x = 0, y = 0, scale = 30, rotation = 0 \<rparr> \<and>
      x (logoConfig (handleFileUpload pl ad (Some f) (resetUpload s))) = 0 \<and>
      y (logoConfig (handleFileUpload pl ad (Some f) (resetUpload s))) = 0 \<and>
      rotation (logoConfig (handleFileUpload pl ad (Some f) (resetUpload s))) = 0)"
proof -
  have frame: "resetUpload s =
      s\<lparr> logoConfig := (logoConfig s)\<lparr> url := None \<rparr>, analysis := None, activeStep := 1,
         redirectStatus := Idle \<rparr>"
    by (simp add: resetUpload_def)
  have rejected: "5 * 1024 * 1024 < fileSize f \<Longrightarrow>
      logoConfig (handleFileUpload pl ad (Some f) (resetUpload s)) = logoConfig (resetUpload s)"
    by (simp add: handleFileUpload_too_large)
  have failed: "pl (dataUrl f) = Inl e \<Longrightarrow>
      logoConfig (handleFileUpload pl ad (Some f) (resetUpload s)) = logoConfig (resetUpload s)"
    for e
    by (cases "5 * 1024 * 1024 < fileSize f")
      (simp_all add: handleFileUpload_too_large handleFileUpload_processLogo_throws)
  have processed: "fileSize f \<le> 5 * 1024 * 1024 \<Longrightarrow> pl (dataUrl f) = Inr img \<Longrightarrow>
      logoConfig (snd (resume pl ad (AwaitProcessLogo (dataUrl f))
        (snd (resume pl ad (AwaitRead (dataUrl f)) (snd (startUpload (Some f) (resetUpload s))))))) =
        \<lparr> url = Some img, x = 0, y = 0, scale = 30, rotation = 0 \<rparr>"
    by (simp add: startUpload_def)
  have finished: "fileSize f \<le> 5 * 1024 * 1024 \<Longrightarrow> pl (dataUrl f) = Inr img \<Longrightarrow>
      x (logoConfig (handleFileUpload pl ad (Some f) (resetUpload s))) = 0 \<and>
      y (logoConfig (handleFileUpload pl ad (Some f) (resetUpload s))) = 0 \<and>
      rotation (logoConfig (handleFileUpload pl ad (Some f) (resetUpload s))) = 0"
  proof -
    assume ok: "fileSize f \<le> 5 * 1024 * 1024" "pl (dataUrl f) = Inr img"
    show ?thesis
    proof (cases "ad img")
      case (Inl e)
      with ok show ?thesis by (simp add: handleFileUpload_analyzeDesign_throws)
    next
      case (Inr v)
      with ok show ?thesis
        by (cases "isPrintable v")
          (simp_all add: handleFileUpload_printable handleFileUpload_not_printable)
    qed
  qed
  show ?thesis
    using rejected failed processed finished
    by (simp add: frame showsSliders_def) blast
qed

text \<open>The edited state, reset, then a file over the limit and a file under it.\<close>

theorem reset_leaves_transform_witness:
  "x (logoConfig (resetUpload editedState)) = 15 / 2 \<and>
   y (logoConfig (resetUpload editedState)) = - 4 \<and>
   scale (logoConfig (resetUpload editedState)) = 12 \<and>
   rotation (logoConfig (resetUpload editedState)) = 1 \<and>
   url (logoConfig (resetUpload editedState)) = None \<and>
   5 * 1024 * 1024 < fileSize hugeFile \<and>
   scale (logoConfig (handleFileUpload okProcessLogo gateByImage (Some hugeFile)
     (resetUpload editedState))) = 12 \<and>
   fileSize smallFile \<le> 5 * 1024 * 1024 \<and>
   okProcessLogo (dataUrl smallFile) = Inr ''cut:data:A'' \<and>
   x (logoConfig (handleFileUpload okProcessLogo gateByImage (Some smallFile)
     (resetUpload editedState))) = 0"
proof -
  have a: "5 * 1024 * 1024 < fileSize hugeFile"
    by (simp add: hugeFile_def)
  have b: "fileSize smallFile \<le> 5 * 1024 * 1024"
    by (simp add: smallFile_def)
  have c: "okProcessLogo (dataUrl smallFile) = Inr ''cut:data:A''"
    by (simp add: okProcessLogo_def smallFile_def)
  have d: "logoConfig editedState =
      \<lparr> url = Some ''cut:data:old'', x = 15 / 2, y = - 4, scale = 12, rotation = 1 \<rparr>"
    by (simp add: editedState_def)
  have e: "scale (logoConfig (resetUpload editedState)) = 12"
    by (simp add: resetUpload_def d)
  show ?thesis
    using reset_leaves_transform
      [where s = editedState and f = hugeFile and pl = okProcessLogo and ad = gateByImage]
      reset_leaves_transform
      [where s = editedState and f = smallFile and pl = okProcessLogo and ad = gateByImage
         and img = "''cut:data:A''"]
      a b c d e
    by simp
qed

section \<open>Checkout\<close>

text \<open>
  C7, as the code has it. With no analysis in the state, \<open>handleShopifyCheckout\<close> returns
  without throwing: the state is unchanged, nothing is saved and nothing is redirected.
\<close>

theorem checkout_without_verdict_returns_silently:
  assumes "analysis s = None"
  shows "handleShopifyCheckout save s = (s, [], None)"
  using assms by (simp add: handleShopifyCheckout_def)

text \<open>Checkout after a reset.\<close>

theorem checkout_without_verdict_returns_silently_witness:
  "analysis (resetUpload editedState) = None \<and>
   handleShopifyCheckout okSave (resetUpload editedState) = (resetUpload editedState, [], None)"
proof -
  have a: "analysis (resetUpload editedState) = None"
    by (simp add: resetUpload_def)
  show ?thesis
    using checkout_without_verdict_returns_silently [OF a, of okSave] a by simp
qed

text \<open>
  C7 as stated fails: on the initial state the handler throws nothing and sets no error
  message.
\<close>

theorem checkout_without_verdict_no_error:
  "analysis initialState = None \<and>
   snd (snd (handleShopifyCheckout okSave initialState)) = None \<and>
   fileError (fst (handleShopifyCheckout okSave initialState)) = None"
  by (simp add: handleShopifyCheckout_def initialState_def)

section \<open>A failing analysis\<close>

text \<open>
  C9. When \<open>analyzeDesign\<close> throws after \<open>processLogo\<close> has succeeded, the run ends with
  the error message set, the step back at 1 and the processing status empty, while the
  logo configuration holds the processed image and the default transform of that run;
  the analysis is the one from before the run.
\<close>

theorem analysis_failure_keeps_processed_image:
  assumes "fileSize f \<le> 5 * 1024 * 1024"
    and "pl (dataUrl f) = Inr img"
    and "ad img = Inl e"
  shows "fileError (handleFileUpload pl ad (Some f) s) =
           Some ''System Error: Could not verify design.'' \<and>
         activeStep (handleFileUpload pl ad (Some f) s) = 1 \<and>
         processingStatus (handleFileUpload pl ad (Some f) s) = [] \<and>
         logoConfig (handleFileUpload pl ad (Some f) s) =
           \<lparr> url = Some img, x = 0, y = 0, scale = 30, rotation = 0 \<rparr> \<and>
         analysis (handleFileUpload pl ad (Some f) s) = analysis s"
  using assms by (simp add: handleFileUpload_analyzeDesign_throws)

text \<open>The run on the edited state: the logo configuration is not the one before the run.\<close>

theorem analysis_failure_keeps_processed_image_witness:
  "fileSize smallFile \<le> 5 * 1024 * 1024 \<and>
   okProcessLogo (dataUrl smallFile) = Inr ''cut:data:A'' \<and>
   failingGate ''cut:data:A'' = Inl (Thrown ''503'') \<and>
   fileError (handleFileUpload okProcessLogo failingGate (Some smallFile) editedState) =
     Some ''System Error: Could not verify design.'' \<and>
   activeStep (handleFileUpload okProcessLogo failingGate (Some smallFile) editedState) = 1 \<and>
   logoConfig (handleFileUpload okProcessLogo failingGate (Some smallFile) editedState) =
     \<lparr> url = Some ''cut:data:A'', x = 0, y = 0, scale = 30, rotation = 0 \<rparr> \<and>
   logoConfig (handleFileUpload okProcessLogo failingGate (Some smallFile) editedState) \<noteq>
     logoConfig editedState"
proof -
  have a: "fileSize smallFile \<le> 5 * 1024 * 1024"
    by (simp add: smallFile_def)
  have b: "okProcessLogo (dataUrl smallFile) = Inr ''cut:data:A''"
    by (simp add: okProcessLogo_def smallFile_def)
  have c: "failingGate ''cut:data:A'' = Inl (Thrown ''503'')"
    by (simp add: failingGate_def)
  have d: "logoConfig editedState \<noteq>
             \<lparr> url = Some ''cut:data:A'', x = 0, y = 0, scale = 30, rotation = 0 \<rparr>"
    by (simp add: editedState_def)
  show ?thesis
    using analysis_failure_keeps_processed_image
      [where f = smallFile and pl = okProcessLogo and img = "''cut:data:A''"
         and ad = failingGate and e = "Thrown ''503''" and s = editedState] a b c d
    by simp
qed

section \<open>Overlapping uploads\<close>

text \<open>
  C8, as the code has it. No run carries a generation and no result is rejected. The one
  protection is in the render function: an accepted upload sets step 2 at once, and the
  file input is shown at step 1 only. A run that is resumed applies its result to the
  state as it then is, whatever other runs exist: when \<open>processLogo\<close> resolves, the logo
  configuration becomes that run's image with the default transform; when \<open>analyzeDesign\<close>
  resolves, the analysis becomes that run's verdict and, if it is printable, the scale
  its recommendation and the step 3.
\<close>

theorem stale_run_result_applied:
  assumes "i < length runs"
  shows "(fileSize f \<le> 5 * 1024 * 1024 \<longrightarrow>
            \<not> showsUploadInput (snd (startUpload (Some f) s))) \<and>
         (runs ! i = AwaitProcessLogo raw \<and> pl raw = Inr img \<longrightarrow>
            logoConfig (snd (dispatch pl ad (Continue i) (runs, s))) =
              \<lparr> url = Some img, x = 0, y = 0, scale = 30, rotation = 0 \<rparr>) \<and>
         (runs ! i = AwaitAnalyzeDesign img \<and> ad img = Inr v \<longrightarrow>
            analysis (snd (dispatch pl ad (Continue i) (runs, s))) = Some v \<and>
            (isPrintable v \<longrightarrow>
               scale (logoConfig (snd (dispatch pl ad (Continue i) (runs, s)))) =
                 js_or (recommendedScale v) 36 \<and>
               activeStep (snd (dispatch pl ad (Continue i) (runs, s))) = 3))"
  using assms
  by (simp add: dispatch_Continue startUpload_def showsUploadInput_def onFinally_def Let_def)

text \<open>The first of two runs, resumed over the state a later upload has left.\<close>

theorem stale_run_result_applied_witness:
  "(0::nat) < length [AwaitAnalyzeDesign ''cut:data:A'', Finished] \<and>
   fileSize smallFile \<le> 5 * 1024 * 1024 \<and>
   \<not> showsUploadInput (snd (startUpload (Some smallFile) initialState)) \<and>
   [AwaitAnalyzeDesign ''cut:data:A'', Finished] ! 0 = AwaitAnalyzeDesign ''cut:data:A'' \<and>
   gateByImage ''cut:data:A'' = Inr (verdictOf True (Some 20)) \<and>
   isPrintable (verdictOf True (Some 20)) \<and>
   analysis (snd (dispatch okProcessLogo gateByImage (Continue 0)
     ([AwaitAnalyzeDesign ''cut:data:A'', Finished], editedState))) =
     Some (verdictOf True (Some 20)) \<and>
   scale (logoConfig (snd (dispatch okProcessLogo gateByImage (Continue 0)
     ([AwaitAnalyzeDesign ''cut:data:A'', Finished], editedState)))) = 20 \<and>
   [AwaitProcessLogo ''data:A'', Finished] ! 0 = AwaitProcessLogo ''data:A'' \<and>
   okProcessLogo ''data:A'' = Inr ''cut:data:A'' \<and>
   logoConfig (snd (dispatch okProcessLogo gateByImage (Continue 0)
     ([AwaitProcessLogo ''data:A'', Finished], editedState))) =
     \<lparr> url = Some ''cut:data:A'', x = 0, y = 0, scale = 30, rotation = 0 \<rparr>"
proof -
  have a: "(0::nat) < length [AwaitAnalyzeDesign ''cut:data:A'', Finished]"
    by simp
  have a': "(0::nat) < length [AwaitProcessLogo ''data:A'', Finished]"
    by simp
  have b: "fileSize smallFile \<le> 5 * 1024 * 1024"
    by (simp add: smallFile_def)
  have c: "gateByImage ''cut:data:A'' = Inr (verdictOf True (Some 20))"
    by (simp add: gateByImage_def)
  have d: "isPrintable (verdictOf True (Some 20))"
      "recommendedScale (verdictOf True (Some 20)) = Some 20"
    by (simp_all add: verdictOf_def)
  have e: "okProcessLogo ''data:A'' = Inr ''cut:data:A''"
    by (simp add: okProcessLogo_def)
  have g: "js_or (Some 20) 36 = 20"
    by (simp add: js_or_def)
  show ?thesis
    using stale_run_result_applied
      [OF a, where f = smallFile and s = editedState and pl = okProcessLogo
         and ad = gateByImage and img = "''cut:data:A''" and v = "verdictOf True (Some 20)"]
      stale_run_result_applied
      [OF a', where f = smallFile and s = initialState and raw = "''data:A''"
         and pl = okProcessLogo and img = "''cut:data:A''"]
      stale_run_result_applied
      [OF a', where s = editedState and raw = "''data:A''"
         and pl = okProcessLogo and ad = gateByImage and img = "''cut:data:A''"]
      b c d e g
    by simp
qed

text \<open>
  C8 as stated fails: after the second upload has completed, the image, the analysis and
  the scale are its own (28); once the first run completes, they are the first run's (20).
\<close>

theorem overlapping_uploads_stale_result_wins:
  "url (logoConfig (snd (eventLoop okProcessLogo gateByImage (take 5 overlappingUploads)
     ([], initialState)))) = Some ''cut:data:B'' \<and>
   analysis (snd (eventLoop okProcessLogo gateByImage (take 5 overlappingUploads)
     ([], initialState))) = Some (verdictOf True (Some 28)) \<and>
   scale (logoConfig (snd (eventLoop okProcessLogo gateByImage (take 5 overlappingUploads)
     ([], initialState)))) = 28 \<and>
   url (logoConfig (snd (eventLoop okProcessLogo gateByImage overlappingUploads
     ([], initialState)))) = Some ''cut:data:A'' \<and>
   analysis (snd (eventLoop okProcessLogo gateByImage overlappingUploads
     ([], initialState))) = Some (verdictOf True (Some 20)) \<and>
   scale (logoConfig (snd (eventLoop okProcessLogo gateByImage overlappingUploads
     ([], initialState)))) = 20"
  by (simp add: overlappingUploads_def startUpload_def smallFile_def otherFile_def
      okProcessLogo_def gateByImage_def verdictOf_def onFinally_def js_or_def initialState_def)


end
